theory Spec2Isabelle
  imports Complex_Main
begin

section \<open>Event ticket platform: inventory ledger and order lifecycle\<close>

text \<open>
  A shallow embedding of the ticket inventory and order lifecycle code of the platform:
  \<^verbatim>\<open>app/models\<close>, \<^verbatim>\<open>app/schemas\<close>, \<^verbatim>\<open>app/services/event_service.py\<close>,
  \<^verbatim>\<open>app/services/order_service.py\<close>, \<^verbatim>\<open>app/services/payment_service.py\<close> and
  \<^verbatim>\<open>app/api/orders.py\<close>.

  The database session is an explicit store that every operation takes and returns. A table
  is a map from primary key to row, with a counter for the next generated key. Each service
  method commits before it returns, so the store returned by a method is the committed one.
  Python exceptions are values of a sum type (\<open>Inl\<close> is the raise). Prices are Python
  floats; they are modelled as reals and take part in no property below. The columns
  \<^verbatim>\<open>description\<close>, \<^verbatim>\<open>location\<close>, \<^verbatim>\<open>start_date\<close>, \<^verbatim>\<open>end_date\<close>,
  \<^verbatim>\<open>image_url\<close>, \<^verbatim>\<open>created_at\<close> and \<^verbatim>\<open>updated_at\<close> are left out: no operation
  below reads them. Logging and the background e-mail tasks do not touch the store and are
  left out as well.
\<close>

subsection \<open>Python helpers\<close>

definition digit_char :: "nat \<Rightarrow> char" where
  "digit_char d =
     (if d = 0 then CHR ''0'' else if d = 1 then CHR ''1'' else if d = 2 then CHR ''2''
      else if d = 3 then CHR ''3'' else if d = 4 then CHR ''4'' else if d = 5 then CHR ''5''
      else if d = 6 then CHR ''6'' else if d = 7 then CHR ''7'' else if d = 8 then CHR ''8''
      else CHR ''9'')"

fun str_nat :: "nat \<Rightarrow> string" where
  "str_nat n =
     (if n < 10 then [digit_char n] else str_nat (n div 10) @ [digit_char (n mod 10)])"

text \<open>\<^verbatim>\<open>str(i)\<close> of a Python int.\<close>

definition str_int :: "int \<Rightarrow> string" where
  "str_int i = (if i < 0 then CHR ''-'' # str_nat (nat (- i)) else str_nat (nat i))"

text \<open>
  \<^verbatim>\<open>str(x)\<close> of an optional string, as an f-string formats it: \<^verbatim>\<open>None\<close> prints as the
  four letters \<^verbatim>\<open>None\<close>.
\<close>

definition str_opt :: "string option \<Rightarrow> string" where
  "str_opt x = (case x of None \<Rightarrow> ''None'' | Some s \<Rightarrow> s)"

text \<open>
  Truthiness of an optional string, whatever its characters are: \<^verbatim>\<open>None\<close> and the
  empty string are falsy.
\<close>

definition truthy_str :: "'a list option \<Rightarrow> bool" where
  "truthy_str x = (case x of None \<Rightarrow> False | Some s \<Rightarrow> s \<noteq> [])"

text \<open>Truthiness of an optional int: \<^verbatim>\<open>None\<close> and \<^verbatim>\<open>0\<close> are falsy.\<close>

definition truthy_int :: "int option \<Rightarrow> bool" where
  "truthy_int x = (case x of None \<Rightarrow> False | Some i \<Rightarrow> i \<noteq> 0)"

subsection \<open>Models (\<^verbatim>\<open>app/models/event.py\<close>, \<^verbatim>\<open>app/models/order.py\<close>, \<^verbatim>\<open>app/models/user.py\<close>)\<close>

datatype OrderStatus = PENDING | PAID | CANCELED | REFUNDED

record Event =
  event_pk :: int
  title :: string
  total_capacity :: int
  available_tickets :: int
  ticket_price :: real
  is_published :: bool
  is_canceled :: bool

record Order =
  order_pk :: int
  user_id :: int
  event_id :: int
  quantity :: int
  unit_price :: real
  total_amount :: real
  status :: OrderStatus
  payment_id :: "string option"
  payment_method :: string
  paid_at :: "int option"

record User =
  user_pk :: int
  email :: string
  is_admin :: bool

record db =
  events :: "int \<rightharpoonup> Event"
  orders :: "int \<rightharpoonup> Order"
  next_event_pk :: int
  next_order_pk :: int

subsection \<open>Errors\<close>

text \<open>
  \<open>ValueError\<close> carries the message of the Python \<^verbatim>\<open>ValueError\<close>; \<open>HTTPException\<close>
  carries the status code and the detail. \<open>ValidationError\<close> is the rejection of a request
  body by its pydantic schema, before the handler runs.
\<close>

datatype error = ValueError string

datatype http_error =
    HTTPException nat string
  | ValidationError string
  | Unhandled error

subsection \<open>Schemas (\<^verbatim>\<open>app/schemas/event.py\<close>, \<^verbatim>\<open>app/schemas/order.py\<close>)\<close>

record EventCreate =
  ec_title :: string
  ec_total_capacity :: int
  ec_ticket_price :: real
  ec_is_published :: bool

text \<open>The validators of \<^verbatim>\<open>EventBase\<close>: capacity above zero, price not negative.\<close>

definition validate_EventCreate :: "EventCreate \<Rightarrow> string option" where
  "validate_EventCreate ec =
     (if ec_total_capacity ec \<le> 0 then Some ''Total capacity must be greater than zero''
      else if ec_ticket_price ec < 0 then Some ''Ticket price cannot be negative''
      else None)"

text \<open>
  \<^verbatim>\<open>EventUpdate\<close>: every field is optional. \<open>None\<close> is a field that the request did not
  set, which \<^verbatim>\<open>dict(exclude_unset=True)\<close> leaves out of \<^verbatim>\<open>update_data\<close>. A request
  that sets a field to null is not part of the model; for \<^verbatim>\<open>total_capacity\<close> the
  subtraction in \<^verbatim>\<open>EventService.update\<close> would raise before anything is written.
\<close>

record EventUpdate =
  eu_title :: "string option"
  eu_total_capacity :: "int option"
  eu_ticket_price :: "real option"
  eu_is_published :: "bool option"
  eu_is_canceled :: "bool option"

definition validate_EventUpdate :: "EventUpdate \<Rightarrow> string option" where
  "validate_EventUpdate eu =
     (if (case eu_total_capacity eu of None \<Rightarrow> False | Some v \<Rightarrow> v \<le> 0)
        then Some ''Total capacity must be greater than zero''
      else if (case eu_ticket_price eu of None \<Rightarrow> False | Some v \<Rightarrow> v < 0)
        then Some ''Ticket price cannot be negative''
      else None)"

record OrderCreate =
  oc_event_id :: int
  oc_quantity :: int
  oc_payment_method :: string

text \<open>\<^verbatim>\<open>OrderBase\<close>: \<^verbatim>\<open>quantity: int = Field(..., gt=0)\<close> and its validator.\<close>

definition validate_OrderCreate :: "OrderCreate \<Rightarrow> string option" where
  "validate_OrderCreate oc =
     (if oc_quantity oc \<le> 0 then Some ''Quantity must be greater than zero'' else None)"

subsection \<open>\<^verbatim>\<open>EventService\<close> (\<^verbatim>\<open>app/services/event_service.py\<close>)\<close>

text \<open>
  \<^verbatim>\<open>EventService.get\<close>: \<^verbatim>\<open>query(Event).filter(Event.id == id).first()\<close>. The filter is
  on the \<^verbatim>\<open>id\<close> column, so the row that comes back carries the id that was asked for.
\<close>

definition EventService_get :: "db \<Rightarrow> int \<Rightarrow> Event option" where
  "EventService_get s i =
     (case events s i of
        None \<Rightarrow> None
      | Some e \<Rightarrow> if event_pk e = i then Some e else None)"

text \<open>\<^verbatim>\<open>EventService.create\<close>: all tickets are available at first.\<close>

definition EventService_create :: "db \<Rightarrow> EventCreate \<Rightarrow> Event \<times> db" where
  "EventService_create s ec =
     (let db_event = \<lparr> event_pk = next_event_pk s,
                        title = ec_title ec,
                        total_capacity = ec_total_capacity ec,
                        available_tickets = ec_total_capacity ec,
                        ticket_price = ec_ticket_price ec,
                        is_published = ec_is_published ec,
                        is_canceled = False \<rparr>
      in (db_event,
          s\<lparr> events := (events s)(next_event_pk s \<mapsto> db_event),
             next_event_pk := next_event_pk s + 1 \<rparr>))"

text \<open>
  The loop \<^verbatim>\<open>for field, value in update_data.items(): setattr(event, field, value)\<close>.
  The third argument is the entry \<^verbatim>\<open>update_data["available_tickets"]\<close>, which only
  \<^verbatim>\<open>update\<close> itself adds.
\<close>

definition set_fields :: "Event \<Rightarrow> EventUpdate \<Rightarrow> int option \<Rightarrow> Event" where
  "set_fields event eu avail =
     event\<lparr> title := (case eu_title eu of None \<Rightarrow> title event | Some v \<Rightarrow> v),
            total_capacity :=
              (case eu_total_capacity eu of None \<Rightarrow> total_capacity event | Some v \<Rightarrow> v),
            ticket_price :=
              (case eu_ticket_price eu of None \<Rightarrow> ticket_price event | Some v \<Rightarrow> v),
            is_published :=
              (case eu_is_published eu of None \<Rightarrow> is_published event | Some v \<Rightarrow> v),
            is_canceled :=
              (case eu_is_canceled eu of None \<Rightarrow> is_canceled event | Some v \<Rightarrow> v),
            available_tickets :=
              (case avail of None \<Rightarrow> available_tickets event | Some v \<Rightarrow> v) \<rparr>"

definition commit_event :: "db \<Rightarrow> Event \<Rightarrow> db" where
  "commit_event s event = s\<lparr> events := (events s)(event_pk event \<mapsto> event) \<rparr>"

text \<open>
  \<^verbatim>\<open>EventService.update\<close>. The raise comes before any attribute is set and before the
  commit, so the store that comes back with the error is the one that went in.
\<close>

definition EventService_update :: "db \<Rightarrow> Event \<Rightarrow> EventUpdate \<Rightarrow> (error + Event) \<times> db" where
  "EventService_update s event eu =
     (case eu_total_capacity eu of
        None \<Rightarrow>
          (let event' = set_fields event eu None in (Inr event', commit_event s event'))
      | Some new_total \<Rightarrow>
          (let capacity_diff = new_total - total_capacity event;
               new_available = available_tickets event + capacity_diff
           in if new_available < 0 then
                (let tickets_sold = total_capacity event - available_tickets event
                 in if tickets_sold > new_total then
                      (Inl (ValueError (''Cannot reduce capacity below tickets already sold (''
                                         @ str_int tickets_sold @ '')'')), s)
                    else
                      (let event' = set_fields event eu (Some 0)
                       in (Inr event', commit_event s event')))
              else
                (let event' = set_fields event eu (Some new_available)
                 in (Inr event', commit_event s event'))))"

text \<open>\<^verbatim>\<open>EventService.decrease_available_tickets\<close>.\<close>

definition decrease_available_tickets :: "db \<Rightarrow> int \<Rightarrow> int \<Rightarrow> bool \<times> db" where
  "decrease_available_tickets s eid qty =
     (case EventService_get s eid of
        None \<Rightarrow> (False, s)
      | Some event \<Rightarrow>
          if is_canceled event then (False, s)
          else if available_tickets event < qty then (False, s)
          else (True, commit_event s
                        (event\<lparr> available_tickets := available_tickets event - qty \<rparr>)))"

text \<open>\<^verbatim>\<open>EventService.increase_available_tickets\<close>.\<close>

definition increase_available_tickets :: "db \<Rightarrow> int \<Rightarrow> int \<Rightarrow> bool \<times> db" where
  "increase_available_tickets s eid qty =
     (case EventService_get s eid of
        None \<Rightarrow> (False, s)
      | Some event \<Rightarrow>
          (let new_available = min (available_tickets event + qty) (total_capacity event)
           in (True, commit_event s (event\<lparr> available_tickets := new_available \<rparr>))))"

subsection \<open>\<^verbatim>\<open>OrderService\<close> (\<^verbatim>\<open>app/services/order_service.py\<close>)\<close>

text \<open>
  Modelled from the spec: \<^verbatim>\<open>OrderService.get\<close> is called by \<^verbatim>\<open>update_status\<close>,
  \<^verbatim>\<open>cancel_order\<close> and the handlers, but its definition is not in
  \<^verbatim>\<open>order_service.py\<close>. The spec names it as the read operation that fetches a single
  order; it is taken to be the lookup by id that \<^verbatim>\<open>EventService.get\<close> is for events.
\<close>

definition OrderService_get :: "db \<Rightarrow> int \<Rightarrow> Order option" where
  "OrderService_get s i =
     (case orders s i of
        None \<Rightarrow> None
      | Some ord \<Rightarrow> if order_pk ord = i then Some ord else None)"

definition commit_order :: "db \<Rightarrow> Order \<Rightarrow> db" where
  "commit_order s ord = s\<lparr> orders := (orders s)(order_pk ord \<mapsto> ord) \<rparr>"

text \<open>
  \<^verbatim>\<open>OrderService.create\<close>: the order is inserted and committed first, then the tickets are
  reserved; when the reservation fails the order is deleted again and \<^verbatim>\<open>ValueError\<close> is
  raised. The store gives the new row the next key.
\<close>

definition OrderService_create ::
  "db \<Rightarrow> int \<Rightarrow> int \<Rightarrow> int \<Rightarrow> string \<Rightarrow> real \<Rightarrow> (error + Order) \<times> db" where
  "OrderService_create s uid eid qty pm price =
     (let amount = price * real_of_int qty;
          db_order = \<lparr> order_pk = next_order_pk s,
                        user_id = uid,
                        event_id = eid,
                        quantity = qty,
                        unit_price = price,
                        total_amount = amount,
                        status = PENDING,
                        payment_id = None,
                        payment_method = pm,
                        paid_at = None \<rparr>;
          s1 = s\<lparr> orders := (orders s)(next_order_pk s \<mapsto> db_order),
                  next_order_pk := next_order_pk s + 1 \<rparr>;
          (ok, s2) = decrease_available_tickets s1 eid qty
      in if \<not> ok then
           (Inl (ValueError ''Failed to reserve tickets. Not enough available tickets.''),
            s2\<lparr> orders := (orders s2)(order_pk db_order := None) \<rparr>)
         else (Inr db_order, s2))"

text \<open>
  \<^verbatim>\<open>OrderService.update_status\<close>; \<open>now\<close> is the value of \<^verbatim>\<open>datetime.utcnow()\<close>.
  There is no check of the status the order has.
\<close>

definition update_status ::
  "db \<Rightarrow> int \<Rightarrow> OrderStatus \<Rightarrow> string option \<Rightarrow> int \<Rightarrow> (error + Order) \<times> db" where
  "update_status s oid st pid now =
     (case OrderService_get s oid of
        None \<Rightarrow> (Inl (ValueError ''Order not found''), s)
      | Some ord \<Rightarrow>
          (let o1 = ord\<lparr> status := st \<rparr>;
               o2 = (if truthy_str pid then o1\<lparr> payment_id := pid \<rparr> else o1);
               o3 = (if st = PAID then o2\<lparr> paid_at := Some now \<rparr> else o2)
           in (Inr o3, commit_order s o3)))"

text \<open>
  \<^verbatim>\<open>OrderService.cancel_order\<close>. The new payment id is the f-string
  \<^verbatim>\<open>f"{order.payment_id}:refund:{refund_id}"\<close>, written when \<^verbatim>\<open>refund_id\<close> is truthy.
\<close>

definition OrderService_cancel_order ::
  "db \<Rightarrow> int \<Rightarrow> string option \<Rightarrow> (error + Order) \<times> db" where
  "OrderService_cancel_order s oid refund_id =
     (case OrderService_get s oid of
        None \<Rightarrow> (Inl (ValueError ''Order not found''), s)
      | Some ord \<Rightarrow>
          (let o1 = ord\<lparr> status := CANCELED \<rparr>;
               o2 = (if truthy_str refund_id
                     then o1\<lparr> payment_id :=
                               Some (str_opt (payment_id o1) @ '':refund:'' @ str_opt refund_id) \<rparr>
                     else o1)
           in (Inr o2, commit_order s o2)))"

subsection \<open>\<^verbatim>\<open>PaymentService\<close> (\<^verbatim>\<open>app/services/payment_service.py\<close>)\<close>

text \<open>
  The card number and the cvc are Python strings, whose characters are Unicode code points,
  and the validators ask of each character whether \<^verbatim>\<open>str.isdigit()\<close> accepts it. Python
  answers from the Unicode character database, which is no part of the repository; besides
  the ASCII digits it accepts the digits of other scripts and digits such as the
  superscript two, U+00B2. A character is therefore an ASCII character, or a code point
  beyond ASCII together with the answer of the database for it. The length of a string is
  the number of its characters.
\<close>

datatype pychar = Ascii char | Digit nat | Other nat

fun isdigit_char :: "pychar \<Rightarrow> bool" where
  "isdigit_char (Ascii c) = (c \<in> set ''0123456789'')"
| "isdigit_char (Digit _) = True"
| "isdigit_char (Other _) = False"

text \<open>A string of ASCII characters as a Python string.\<close>

definition text_of :: "string \<Rightarrow> pychar list" where
  "text_of cs = map Ascii cs"

text \<open>\<^verbatim>\<open>str(x)\<close> of an optional Python string.\<close>

definition str_text :: "pychar list option \<Rightarrow> pychar list" where
  "str_text x = (case x of None \<Rightarrow> text_of ''None'' | Some s \<Rightarrow> s)"

text \<open>
  The dictionary \<^verbatim>\<open>payment_details\<close>, with the value types of the \<^verbatim>\<open>PaymentProcess\<close>
  schema that the handler fills it from. \<open>None\<close> is a key that is absent or holds
  \<^verbatim>\<open>None\<close>; the validators treat the two alike.
\<close>

record payment_details =
  card_number :: "pychar list option"
  card_exp_month :: "int option"
  card_exp_year :: "int option"
  card_cvc :: "pychar list option"

text \<open>\<^verbatim>\<open>str.isdigit()\<close>: every character is a digit and there is at least one.\<close>

definition isdigit :: "pychar list \<Rightarrow> bool" where
  "isdigit cs = (cs \<noteq> [] \<and> list_all isdigit_char cs)"

text \<open>\<^verbatim>\<open>.replace(" ", "").replace("-", "")\<close>\<close>

definition strip_separators :: "pychar list \<Rightarrow> pychar list" where
  "strip_separators cs =
     filter (\<lambda>c. c \<noteq> Ascii (CHR ''-'')) (filter (\<lambda>c. c \<noteq> Ascii (CHR '' '')) cs)"

text \<open>
  The module defines the class \<^verbatim>\<open>PaymentService\<close> twice. The second class statement
  rebinds the name, so \<^verbatim>\<open>PaymentService()\<close> in the handlers is an instance of the second
  class. Its \<^verbatim>\<open>_validate_credit_card\<close> returns a bool.
\<close>

definition validate_credit_card :: "payment_details \<Rightarrow> bool" where
  "validate_credit_card pd =
     (if \<not> truthy_str (card_number pd) then False
      else if \<not> truthy_int (card_exp_month pd) then False
      else if \<not> truthy_int (card_exp_year pd) then False
      else if \<not> truthy_str (card_cvc pd) then False
      else
        (let number = strip_separators (str_text (card_number pd))
         in if \<not> isdigit number \<or> \<not> (13 \<le> length number \<and> length number \<le> 19) then False
            else
              (let exp_month = (case card_exp_month pd of None \<Rightarrow> 0 | Some m \<Rightarrow> m);
                   exp_year = (case card_exp_year pd of None \<Rightarrow> 0 | Some y \<Rightarrow> y)
               in if \<not> (1 \<le> exp_month \<and> exp_month \<le> 12)
                     \<or> \<not> (2000 \<le> exp_year \<and> exp_year \<le> 2100) then False
                  else
                    (let cvc = str_text (card_cvc pd)
                     in if \<not> isdigit cvc \<or> \<not> (3 \<le> length cvc \<and> length cvc \<le> 4) then False
                        else True))))"

record payment_result =
  success :: bool
  pr_payment_id :: "string option"
  pr_error :: "string option"

text \<open>
  \<^verbatim>\<open>PaymentService.process_payment\<close> of the second class; \<open>token\<close> is
  \<^verbatim>\<open>uuid.uuid4().hex[:10]\<close>.
\<close>

definition PaymentService_process_payment ::
  "real \<Rightarrow> string \<Rightarrow> payment_details \<Rightarrow> string \<Rightarrow> payment_result" where
  "PaymentService_process_payment amount method pd token =
     (if method = ''credit_card'' \<and> \<not> validate_credit_card pd then
        \<lparr> success = False, pr_payment_id = None,
          pr_error = Some ''Invalid credit card details'' \<rparr>
      else
        \<lparr> success = True, pr_payment_id = Some (''payment_'' @ token), pr_error = None \<rparr>)"

text \<open>
  \<^verbatim>\<open>_validate_credit_card\<close> of the first class, which the second class statement hides.
  It returns the dictionary \<^verbatim>\<open>{"valid": ..., "error": ...}\<close>; \<open>cur_year\<close> and
  \<open>cur_month\<close> are \<^verbatim>\<open>datetime.now().year\<close> and \<^verbatim>\<open>datetime.now().month\<close>. The month
  and the year are ints already, so \<^verbatim>\<open>int(...)\<close> returns them and does not raise.
\<close>

datatype validation = Valid | Invalid string

definition validate_credit_card_first :: "int \<Rightarrow> int \<Rightarrow> payment_details \<Rightarrow> validation" where
  "validate_credit_card_first cur_year cur_month pd =
     (if \<not> truthy_str (card_number pd) then Invalid ''Missing required field: card_number''
      else if \<not> truthy_int (card_exp_month pd)
        then Invalid ''Missing required field: card_exp_month''
      else if \<not> truthy_int (card_exp_year pd)
        then Invalid ''Missing required field: card_exp_year''
      else if \<not> truthy_str (card_cvc pd) then Invalid ''Missing required field: card_cvc''
      else
        (let number = strip_separators (str_text (card_number pd))
         in if \<not> isdigit number \<or> \<not> (13 \<le> length number \<and> length number \<le> 19)
            then Invalid ''Invalid card number format''
            else
              (let exp_month = (case card_exp_month pd of None \<Rightarrow> 0 | Some m \<Rightarrow> m);
                   exp_year = (case card_exp_year pd of None \<Rightarrow> 0 | Some y \<Rightarrow> y)
               in if \<not> (1 \<le> exp_month \<and> exp_month \<le> 12)
                  then Invalid ''Invalid expiration month''
                  else if exp_year < cur_year \<or> (exp_year = cur_year \<and> exp_month < cur_month)
                  then Invalid ''Card has expired''
                  else
                    (let cvc = str_text (card_cvc pd)
                     in if \<not> isdigit cvc \<or> \<not> (3 \<le> length cvc \<and> length cvc \<le> 4)
                        then Invalid ''Invalid CVC format''
                        else Valid))))"

subsection \<open>Handlers (\<^verbatim>\<open>app/api/events.py\<close>, \<^verbatim>\<open>app/api/orders.py\<close>)\<close>

text \<open>
  A handler takes the user that the dependency \<^verbatim>\<open>get_current_active_user\<close> supplies and
  the request body, which FastAPI validates against its schema before the handler runs. The
  handlers for events depend on \<^verbatim>\<open>get_current_admin_user\<close>, which answers 403 for a user
  that is not an admin.

  \<^verbatim>\<open>app/api/orders.py\<close> defines \<^verbatim>\<open>router\<close> and the handlers \<^verbatim>\<open>create_order\<close>,
  \<^verbatim>\<open>process_payment\<close> and \<^verbatim>\<open>cancel_order\<close> twice; the application mounts the router that
  is bound last, with the later handlers, which are the ones embedded here. The earlier
  handlers make the same checks and the same service calls in the same order. They differ
  in that the earlier \<^verbatim>\<open>create_order\<close> turns the \<^verbatim>\<open>ValueError\<close> of
  \<^verbatim>\<open>OrderService.create\<close> into a 400 response with the same message, and that the earlier
  \<^verbatim>\<open>cancel_order\<close> returns the order joined with its event.
\<close>

definition create_event :: "db \<Rightarrow> User \<Rightarrow> EventCreate \<Rightarrow> (http_error + Event) \<times> db" where
  "create_event s current_user ec =
     (if \<not> is_admin current_user then
        (Inl (HTTPException 403 ''The user doesn't have enough privileges''), s)
      else
        (case validate_EventCreate ec of
           Some msg \<Rightarrow> (Inl (ValidationError msg), s)
         | None \<Rightarrow> (let (ev, s') = EventService_create s ec in (Inr ev, s'))))"

text \<open>
  \<^verbatim>\<open>update_event\<close>. The \<^verbatim>\<open>ValueError\<close> of \<^verbatim>\<open>EventService.update\<close> is not caught by
  the handler.
\<close>

definition update_event ::
  "db \<Rightarrow> User \<Rightarrow> int \<Rightarrow> EventUpdate \<Rightarrow> (http_error + Event) \<times> db" where
  "update_event s current_user eid eu =
     (if \<not> is_admin current_user then
        (Inl (HTTPException 403 ''The user doesn't have enough privileges''), s)
      else
        (case validate_EventUpdate eu of
           Some msg \<Rightarrow> (Inl (ValidationError msg), s)
         | None \<Rightarrow>
             (case EventService_get s eid of
                None \<Rightarrow> (Inl (HTTPException 404 ''Event not found''), s)
              | Some event \<Rightarrow>
                  (case EventService_update s event eu of
                     (Inl e, s') \<Rightarrow> (Inl (Unhandled e), s')
                   | (Inr ev, s') \<Rightarrow> (Inr ev, s')))))"

definition create_order :: "db \<Rightarrow> User \<Rightarrow> OrderCreate \<Rightarrow> (http_error + Order) \<times> db" where
  "create_order s current_user oc =
     (case validate_OrderCreate oc of
        Some msg \<Rightarrow> (Inl (ValidationError msg), s)
      | None \<Rightarrow>
          (case EventService_get s (oc_event_id oc) of
             None \<Rightarrow> (Inl (HTTPException 404 ''Event not found''), s)
           | Some event \<Rightarrow>
               if \<not> is_published event then
                 (Inl (HTTPException 400 ''Cannot order tickets for unpublished events''), s)
               else if is_canceled event then
                 (Inl (HTTPException 400 ''Cannot order tickets for canceled events''), s)
               else if available_tickets event < oc_quantity oc then
                 (Inl (HTTPException 400
                        (''Not enough tickets available. Only ''
                          @ str_int (available_tickets event) @ '' left.'')), s)
               else
                 (case OrderService_create s (user_pk current_user) (oc_event_id oc)
                         (oc_quantity oc) (oc_payment_method oc) (ticket_price event) of
                    (Inl e, s') \<Rightarrow> (Inl (Unhandled e), s')
                  | (Inr ord, s') \<Rightarrow> (Inr ord, s'))))"

record PaymentProcess =
  pp_order_id :: int
  pp_payment_method :: string
  pp_card_number :: "pychar list option"
  pp_card_exp_month :: "int option"
  pp_card_exp_year :: "int option"
  pp_card_cvc :: "pychar list option"

record PaymentResponse =
  resp_order_id :: int
  resp_status :: OrderStatus
  resp_payment_id :: "string option"
  message :: string

text \<open>
  \<^verbatim>\<open>process_payment\<close>; \<open>token\<close> and \<open>now\<close> are what \<^verbatim>\<open>uuid.uuid4()\<close> and
  \<^verbatim>\<open>datetime.utcnow()\<close> give during the call.
\<close>

definition process_payment ::
  "db \<Rightarrow> User \<Rightarrow> int \<Rightarrow> PaymentProcess \<Rightarrow> string \<Rightarrow> int
     \<Rightarrow> (http_error + PaymentResponse) \<times> db" where
  "process_payment s current_user oid payment_data token now =
     (case OrderService_get s oid of
        None \<Rightarrow> (Inl (HTTPException 404 ''Order not found''), s)
      | Some ord \<Rightarrow>
          if user_id ord \<noteq> user_pk current_user \<and> \<not> is_admin current_user then
            (Inl (HTTPException 403 ''Not enough permissions to process this order''), s)
          else if status ord = PAID then
            (Inr \<lparr> resp_order_id = order_pk ord, resp_status = status ord,
                   resp_payment_id = payment_id ord, message = ''Order is already paid'' \<rparr>, s)
          else if status ord = CANCELED then
            (Inl (HTTPException 400 ''Cannot process payment for a canceled order''), s)
          else
            (let result = PaymentService_process_payment (total_amount ord)
                            (pp_payment_method payment_data)
                            \<lparr> card_number = pp_card_number payment_data,
                              card_exp_month = pp_card_exp_month payment_data,
                              card_exp_year = pp_card_exp_year payment_data,
                              card_cvc = pp_card_cvc payment_data \<rparr>
                            token
             in if success result then
                  (case update_status s (order_pk ord) PAID (pr_payment_id result) now of
                     (Inl e, s') \<Rightarrow> (Inl (Unhandled e), s')
                   | (Inr _, s') \<Rightarrow>
                       (Inr \<lparr> resp_order_id = order_pk ord, resp_status = PAID,
                              resp_payment_id = pr_payment_id result,
                              message = ''Payment successful'' \<rparr>, s'))
                else
                  (Inr \<lparr> resp_order_id = order_pk ord, resp_status = status ord,
                         resp_payment_id = None,
                         message = ''Payment failed: '' @ str_opt (pr_error result) \<rparr>, s)))"

text \<open>
  \<^verbatim>\<open>cancel_order\<close>: the only status that is turned away is \<^verbatim>\<open>CANCELED\<close>. The release
  uses the event id and the quantity of the order as it was read at the start.
\<close>

definition cancel_order :: "db \<Rightarrow> User \<Rightarrow> int \<Rightarrow> (http_error + Order) \<times> db" where
  "cancel_order s current_user oid =
     (case OrderService_get s oid of
        None \<Rightarrow> (Inl (HTTPException 404 ''Order not found''), s)
      | Some ord \<Rightarrow>
          if user_id ord \<noteq> user_pk current_user \<and> \<not> is_admin current_user then
            (Inl (HTTPException 403 ''Not enough permissions to cancel this order''), s)
          else if status ord = CANCELED then
            (Inl (HTTPException 400 ''Order is already canceled''), s)
          else
            (let refund_id = (if status ord = PAID then Some ''refund_123'' else None)
             in case OrderService_cancel_order s (order_pk ord) refund_id of
                  (Inl e, s1) \<Rightarrow> (Inl (Unhandled e), s1)
                | (Inr updated_order, s1) \<Rightarrow>
                    (let (_, s2) = increase_available_tickets s1 (event_id ord) (quantity ord)
                     in (Inr updated_order, s2))))"

subsection \<open>The ledger invariant and the core operations\<close>

text \<open>An event is in range when its availability lies between zero and its capacity.\<close>

definition event_ok :: "Event \<Rightarrow> bool" where
  "event_ok e = (0 \<le> available_tickets e \<and> available_tickets e \<le> total_capacity e)"

definition ledger_ok :: "db \<Rightarrow> bool" where
  "ledger_ok s = (\<forall>k e. events s k = Some e \<longrightarrow> event_ok e)"

text \<open>Every stored order is for a positive number of tickets.\<close>

definition orders_ok :: "db \<Rightarrow> bool" where
  "orders_ok s = (\<forall>k ord. orders s k = Some ord \<longrightarrow> 0 < quantity ord)"

text \<open>
  The operations that write to the ledger: creating an event, reserving and releasing
  tickets, changing an event, creating an order and cancelling one.
\<close>

datatype core_op =
    CreateEvent User EventCreate
  | Reserve int int
  | Release int int
  | UpdateEvent User int EventUpdate
  | CreateOrder User OrderCreate
  | CancelOrder User int

fun core_step :: "db \<Rightarrow> core_op \<Rightarrow> db" where
  "core_step s (CreateEvent u ec) = snd (create_event s u ec)"
| "core_step s (Reserve eid qty) = snd (decrease_available_tickets s eid qty)"
| "core_step s (Release eid qty) = snd (increase_available_tickets s eid qty)"
| "core_step s (UpdateEvent u eid eu) = snd (update_event s u eid eu)"
| "core_step s (CreateOrder u oc) = snd (create_order s u oc)"
| "core_step s (CancelOrder u oid) = snd (cancel_order s u oid)"

text \<open>
  A reservation or a release is for a number of tickets that is not negative. The callers
  pass the quantity of an \<^verbatim>\<open>OrderCreate\<close>, which its schema keeps above zero, or the
  quantity of a stored order.
\<close>

fun op_ok :: "core_op \<Rightarrow> bool" where
  "op_ok (Reserve eid qty) = (0 \<le> qty)"
| "op_ok (Release eid qty) = (0 \<le> qty)"
| "op_ok _ = True"

subsection \<open>Runs of the handlers\<close>

definition empty_db :: db where
  "empty_db = \<lparr> events = Map.empty, orders = Map.empty, next_event_pk = 1, next_order_pk = 1 \<rparr>"

text \<open>The stores that the handlers can produce from the empty store.\<close>

inductive reachable :: "db \<Rightarrow> bool" where
  reachable_empty: "reachable empty_db"
| reachable_create_event: "reachable s \<Longrightarrow> reachable (snd (create_event s u ec))"
| reachable_update_event: "reachable s \<Longrightarrow> reachable (snd (update_event s u eid eu))"
| reachable_create_order: "reachable s \<Longrightarrow> reachable (snd (create_order s u oc))"
| reachable_process_payment:
    "reachable s \<Longrightarrow> reachable (snd (process_payment s u oid payment_data token now))"
| reachable_cancel_order: "reachable s \<Longrightarrow> reachable (snd (cancel_order s u oid))"

subsection \<open>Example stores\<close>

text \<open>
  One event with 100 tickets of which 5 are reserved, and the order of user 7 that holds
  them, in the given status and with the given payment id.
\<close>

definition concert :: Event where
  "concert = \<lparr> event_pk = 1, title = ''Concert'', total_capacity = 100,
               available_tickets = 95, ticket_price = 20,
               is_published = True, is_canceled = False \<rparr>"

definition order1 :: "OrderStatus \<Rightarrow> string option \<Rightarrow> Order" where
  "order1 st pid = \<lparr> order_pk = 1, user_id = 7, event_id = 1, quantity = 5,
                     unit_price = 20, total_amount = 100, status = st,
                     payment_id = pid, payment_method = ''credit_card'',
                     paid_at = None \<rparr>"

definition example_db :: "OrderStatus \<Rightarrow> string option \<Rightarrow> db" where
  "example_db st pid = \<lparr> events = [1 \<mapsto> concert], orders = [1 \<mapsto> order1 st pid],
                         next_event_pk = 2, next_order_pk = 2 \<rparr>"

definition alice :: User where
  "alice = \<lparr> user_pk = 7, email = ''alice@example.com'', is_admin = False \<rparr>"

text \<open>A card that ran out in January 2020, and a request that pays with it.\<close>

definition expired_card :: payment_details where
  "expired_card = \<lparr> card_number = Some (text_of ''4111 1111 1111 1111''), card_exp_month = Some 1,
                    card_exp_year = Some 2020, card_cvc = Some (text_of ''123'') \<rparr>"

definition expired_card_payment :: PaymentProcess where
  "expired_card_payment = \<lparr> pp_order_id = 1, pp_payment_method = ''credit_card'',
                            pp_card_number = Some (text_of ''4111 1111 1111 1111''),
                            pp_card_exp_month = Some 1, pp_card_exp_year = Some 2020,
                            pp_card_cvc = Some (text_of ''123'') \<rparr>"

text \<open>An update that sets nothing but the capacity.\<close>

definition resize_to :: "int \<Rightarrow> EventUpdate" where
  "resize_to n = \<lparr> eu_title = None, eu_total_capacity = Some n, eu_ticket_price = None,
                   eu_is_published = None, eu_is_canceled = None \<rparr>"

section \<open>Properties\<close>

subsection \<open>Auxiliary facts\<close>

lemma example_get_event: "EventService_get (example_db st pid) 1 = Some concert"
  by (simp add: example_db_def EventService_get_def concert_def)

lemma example_get_order: "OrderService_get (example_db st pid) 1 = Some (order1 st pid)"
  by (simp add: example_db_def OrderService_get_def order1_def)

lemma example_ledger_ok: "ledger_ok (example_db st pid)"
  by (simp add: ledger_ok_def example_db_def event_ok_def concert_def)

lemma example_orders_ok: "orders_ok (example_db st pid)"
  by (simp add: orders_ok_def example_db_def order1_def)

lemma decrease_ignores_orders:
  "decrease_available_tickets (s\<lparr> orders := os, next_order_pk := n \<rparr>) eid qty =
     (fst (decrease_available_tickets s eid qty),
      (snd (decrease_available_tickets s eid qty))\<lparr> orders := os, next_order_pk := n \<rparr>)"
  by (simp add: decrease_available_tickets_def EventService_get_def commit_event_def
           split: option.splits)

lemma ledger_ok_commit_event:
  "ledger_ok s \<Longrightarrow> event_ok e \<Longrightarrow> ledger_ok (commit_event s e)"
  by (simp add: ledger_ok_def commit_event_def)

lemma EventService_get_ok:
  "ledger_ok s \<Longrightarrow> EventService_get s k = Some e \<Longrightarrow> event_ok e"
  by (auto simp: ledger_ok_def EventService_get_def split: option.splits if_splits)

lemma ledger_ok_orders_update [simp]:
  "ledger_ok (s\<lparr> orders := os \<rparr>) = ledger_ok s"
  "ledger_ok (s\<lparr> next_order_pk := n \<rparr>) = ledger_ok s"
  by (simp_all add: ledger_ok_def)

lemma orders_ok_events_update [simp]:
  "orders_ok (s\<lparr> events := es \<rparr>) = orders_ok s"
  "orders_ok (s\<lparr> next_event_pk := n \<rparr>) = orders_ok s"
  "orders_ok (s\<lparr> next_order_pk := m \<rparr>) = orders_ok s"
  by (simp_all add: orders_ok_def)

lemma decrease_ledger_ok:
  assumes "ledger_ok s" and "0 \<le> qty"
  shows "ledger_ok (snd (decrease_available_tickets s eid qty))"
proof (cases "EventService_get s eid")
  case None
  then show ?thesis using assms by (simp add: decrease_available_tickets_def)
next
  case (Some e)
  then have "event_ok e" using assms(1) by (rule EventService_get_ok[rotated])
  then show ?thesis using Some assms
    by (auto simp: decrease_available_tickets_def event_ok_def intro!: ledger_ok_commit_event)
qed

lemma decrease_orders [simp]:
  "orders (snd (decrease_available_tickets s eid qty)) = orders s"
  by (simp add: decrease_available_tickets_def commit_event_def split: option.splits)

lemma increase_ledger_ok:
  assumes "ledger_ok s" and "0 \<le> qty"
  shows "ledger_ok (snd (increase_available_tickets s eid qty))"
proof (cases "EventService_get s eid")
  case None
  then show ?thesis using assms by (simp add: increase_available_tickets_def)
next
  case (Some e)
  then have "event_ok e" using assms(1) by (rule EventService_get_ok[rotated])
  then show ?thesis using Some assms
    by (auto simp: increase_available_tickets_def event_ok_def Let_def intro!: ledger_ok_commit_event)
qed

lemma increase_orders [simp]:
  "orders (snd (increase_available_tickets s eid qty)) = orders s"
  by (simp add: increase_available_tickets_def commit_event_def Let_def split: option.splits)

lemma EventService_update_ledger_ok:
  assumes "ledger_ok s" and "event_ok e"
  shows "ledger_ok (snd (EventService_update s e eu))"
  using assms
  by (auto simp: EventService_update_def Let_def set_fields_def event_ok_def
           split: option.splits intro!: ledger_ok_commit_event)

lemma EventService_update_orders [simp]:
  "orders (snd (EventService_update s e eu)) = orders s"
  by (simp add: EventService_update_def Let_def commit_event_def split: option.splits)

lemma create_event_ledger_ok:
  "ledger_ok s \<Longrightarrow> ledger_ok (snd (create_event s u ec))"
  by (auto simp: create_event_def EventService_create_def validate_EventCreate_def Let_def
                 ledger_ok_def event_ok_def split: option.splits if_splits)

lemma update_event_ledger_ok:
  assumes "ledger_ok s"
  shows "ledger_ok (snd (update_event s u eid eu))"
proof (cases "EventService_get s eid")
  case None
  then show ?thesis using assms by (simp add: update_event_def split: option.splits)
next
  case (Some e)
  then have ok: "event_ok e" using assms by (rule EventService_get_ok[rotated])
  have "ledger_ok (snd (EventService_update s e eu))"
    using assms ok by (rule EventService_update_ledger_ok)
  then show ?thesis using Some assms
    by (auto simp: update_event_def split: option.splits prod.splits sum.splits)
qed


lemma OrderService_create_ledger_ok:
  assumes "ledger_ok s" and "0 \<le> qty"
  shows "ledger_ok (snd (OrderService_create s uid eid qty pm price))"
proof -
  have "ledger_ok (snd (decrease_available_tickets s1 eid qty))" if "ledger_ok s1" for s1
    using that assms(2) by (rule decrease_ledger_ok)
  then show ?thesis using assms(1)
    by (simp add: OrderService_create_def Let_def case_prod_unfold)
qed

lemma create_order_ledger_ok:
  assumes "ledger_ok s"
  shows "ledger_ok (snd (create_order s u oc))"
proof (cases "0 < oc_quantity oc")
  case False
  then show ?thesis using assms by (simp add: create_order_def validate_OrderCreate_def)
next
  case True
  then have "ledger_ok (snd (OrderService_create s (user_pk u) (oc_event_id oc) (oc_quantity oc)
                               (oc_payment_method oc) p))" for p
    using assms by (intro OrderService_create_ledger_ok) simp_all
  then show ?thesis using assms
    by (simp add: create_order_def case_prod_unfold split: option.splits sum.splits)
qed

lemma OrderService_cancel_order_events [simp]:
  "events (snd (OrderService_cancel_order s oid r)) = events s"
  by (simp add: OrderService_cancel_order_def commit_order_def Let_def split: option.splits)

lemma OrderService_get_ok:
  "orders_ok s \<Longrightarrow> OrderService_get s k = Some ord \<Longrightarrow> 0 < quantity ord"
  by (auto simp: orders_ok_def OrderService_get_def split: option.splits if_splits)

lemma ledger_ok_cong: "events s = events s' \<Longrightarrow> ledger_ok s = ledger_ok s'"
  by (simp add: ledger_ok_def)

lemma cancel_order_ledger_ok:
  assumes "ledger_ok s" and "orders_ok s"
  shows "ledger_ok (snd (cancel_order s u oid))"
proof (cases "OrderService_get s oid")
  case None
  then show ?thesis using assms by (simp add: cancel_order_def)
next
  case (Some ord)
  then have q: "0 \<le> quantity ord" using assms(2) OrderService_get_ok by fastforce
  have c: "ledger_ok (snd (OrderService_cancel_order s (order_pk ord) r))" for r
    using assms(1) ledger_ok_cong[OF OrderService_cancel_order_events] by blast
  have "ledger_ok (snd (increase_available_tickets
               (snd (OrderService_cancel_order s (order_pk ord) r)) (event_id ord) (quantity ord)))" for r
    using c q by (rule increase_ledger_ok)
  then show ?thesis using Some assms(1) c
    by (simp add: cancel_order_def Let_def case_prod_unfold split: sum.splits)
qed

lemma orders_ok_cong: "orders s = orders s' \<Longrightarrow> orders_ok s = orders_ok s'"
  by (simp add: orders_ok_def)

lemma create_event_orders: "orders_ok (snd (create_event s u ec)) = orders_ok s"
  by (simp add: create_event_def EventService_create_def Let_def split: option.splits)

lemma update_event_orders_ok: "orders_ok (snd (update_event s u eid eu)) = orders_ok s"
  using orders_ok_cong [OF EventService_update_orders]
  by (simp add: update_event_def case_prod_unfold split: option.splits sum.splits)

lemma OrderService_create_orders_ok:
  assumes "orders_ok s" and "0 < qty"
  shows "orders_ok (snd (OrderService_create s uid eid qty pm price))"
  using assms
  by (auto simp: OrderService_create_def Let_def case_prod_unfold orders_ok_def
           split: if_splits)

lemma create_order_orders_ok:
  assumes "orders_ok s"
  shows "orders_ok (snd (create_order s u oc))"
proof (cases "0 < oc_quantity oc")
  case False
  then show ?thesis using assms by (simp add: create_order_def validate_OrderCreate_def)
next
  case True
  then have "orders_ok (snd (OrderService_create s (user_pk u) (oc_event_id oc) (oc_quantity oc)
                               (oc_payment_method oc) p))" for p
    using assms by (intro OrderService_create_orders_ok) simp_all
  then show ?thesis using assms
    by (simp add: create_order_def case_prod_unfold split: option.splits sum.splits)
qed

lemma OrderService_cancel_order_orders_ok:
  "orders_ok s \<Longrightarrow> orders_ok (snd (OrderService_cancel_order s oid r))"
  by (auto simp: OrderService_cancel_order_def OrderService_get_def commit_order_def Let_def
                 orders_ok_def split: option.splits if_splits)

lemma cancel_order_orders_ok:
  assumes "orders_ok s"
  shows "orders_ok (snd (cancel_order s u oid))"
proof -
  have "orders_ok (snd (increase_available_tickets
           (snd (OrderService_cancel_order s k r)) e q))" for k r e q
    using OrderService_cancel_order_orders_ok [OF assms, of k r]
          orders_ok_cong [OF increase_orders] by blast
  then show ?thesis using assms OrderService_cancel_order_orders_ok [OF assms]
    by (simp add: cancel_order_def Let_def case_prod_unfold split: option.splits sum.splits)
qed

lemma update_status_events [simp]:
  "events (snd (update_status s oid st pid now)) = events s"
  by (simp add: update_status_def commit_order_def Let_def split: option.splits)

lemma update_status_orders_ok:
  "orders_ok s \<Longrightarrow> orders_ok (snd (update_status s oid st pid now))"
  by (auto simp: update_status_def OrderService_get_def commit_order_def Let_def
                 orders_ok_def split: option.splits if_splits)

lemma process_payment_ledger_ok:
  assumes "ledger_ok s"
  shows "ledger_ok (snd (process_payment s u oid payment_data token now))"
proof -
  have "ledger_ok (snd (update_status s k st pid now))" for k st pid
    using assms ledger_ok_cong [OF update_status_events] by blast
  then show ?thesis using assms
    by (simp add: process_payment_def Let_def case_prod_unfold split: option.splits sum.splits)
qed

lemma process_payment_orders_ok:
  assumes "orders_ok s"
  shows "orders_ok (snd (process_payment s u oid payment_data token now))"
  using assms update_status_orders_ok [OF assms]
  by (simp add: process_payment_def Let_def case_prod_unfold split: option.splits sum.splits)

lemma reachable_invariant: "reachable s \<Longrightarrow> ledger_ok s \<and> orders_ok s"
proof (induction rule: reachable.induct)
  case reachable_empty
  show ?case by (simp add: empty_db_def ledger_ok_def orders_ok_def)
next
  case (reachable_create_event s u ec)
  then show ?case by (simp add: create_event_ledger_ok create_event_orders)
next
  case (reachable_update_event s u eid eu)
  then show ?case by (simp add: update_event_ledger_ok update_event_orders_ok)
next
  case (reachable_create_order s u oc)
  then show ?case by (simp add: create_order_ledger_ok create_order_orders_ok)
next
  case (reachable_process_payment s u oid payment_data token now)
  then show ?case by (simp add: process_payment_ledger_ok process_payment_orders_ok)
next
  case (reachable_cancel_order s u oid)
  then show ?case by (simp add: cancel_order_ledger_ok cancel_order_orders_ok)
qed

subsection \<open>The ledger invariant\<close>




subsection \<open>Order creation\<close>

lemma OrderService_create_cases:
  assumes "orders s (next_order_pk s) = None"
  shows "(\<not> fst (decrease_available_tickets s eid qty) \<longrightarrow>
            OrderService_create s uid eid qty pm price =
              (Inl (ValueError ''Failed to reserve tickets. Not enough available tickets.''),
               s\<lparr> next_order_pk := next_order_pk s + 1 \<rparr>)) \<and>
         (fst (decrease_available_tickets s eid qty) \<longrightarrow>
            (\<exists>ord e s'. OrderService_create s uid eid qty pm price = (Inr ord, s') \<and>
               order_pk ord = next_order_pk s \<and> event_id ord = eid \<and> quantity ord = qty \<and>
               status ord = PENDING \<and>
               orders s' = (orders s)(next_order_pk s \<mapsto> ord) \<and>
               EventService_get s eid = Some e \<and>
               events s' = (events s)
                 (eid \<mapsto> e\<lparr> available_tickets := available_tickets e - qty \<rparr>)))"
proof (cases "fst (decrease_available_tickets s eid qty)")
  case False
  then have "snd (decrease_available_tickets s eid qty) = s"
    by (auto simp: decrease_available_tickets_def split: option.splits if_splits)
  moreover have "(orders s)(next_order_pk s := None) = orders s"
    using assms by (simp add: fun_upd_idem)
  ultimately show ?thesis using False
    by (simp add: OrderService_create_def Let_def decrease_ignores_orders)
next
  case True
  then obtain e where e: "EventService_get s eid = Some e"
    and s': "snd (decrease_available_tickets s eid qty) =
               s\<lparr> events := (events s)
                     (eid \<mapsto> e\<lparr> available_tickets := available_tickets e - qty \<rparr>) \<rparr>"
    by (auto simp: decrease_available_tickets_def EventService_get_def commit_event_def
             split: option.splits if_splits)
  show ?thesis using True e s'
    by (simp add: OrderService_create_def Let_def decrease_ignores_orders)
qed


lemma create_order_cases:
  assumes "orders s (next_order_pk s) = None"
  shows "(\<exists>err. create_order s u oc = (Inl err, s)) \<or>
         (\<exists>ord e s'. create_order s u oc = (Inr ord, s') \<and>
            orders s' = (orders s)(next_order_pk s \<mapsto> ord) \<and>
            quantity ord = oc_quantity oc \<and> event_id ord = oc_event_id oc \<and>
            EventService_get s (oc_event_id oc) = Some e \<and>
            events s' = (events s)
              (oc_event_id oc \<mapsto>
                 e\<lparr> available_tickets := available_tickets e - oc_quantity oc \<rparr>))"
proof (cases "\<exists>err. create_order s u oc = (Inl err, s)")
  case True
  then show ?thesis by blast
next
  case False
  then obtain e where e: "EventService_get s (oc_event_id oc) = Some e"
    and ok: "\<not> is_canceled e" "\<not> available_tickets e < oc_quantity oc"
    and v: "validate_OrderCreate oc = None" and p: "is_published e"
    by (auto simp: create_order_def split: option.splits if_splits)
  have r: "fst (decrease_available_tickets s (oc_event_id oc) (oc_quantity oc))"
    using e ok by (simp add: decrease_available_tickets_def)
  obtain ord e' s' where
    c: "OrderService_create s (user_pk u) (oc_event_id oc) (oc_quantity oc)
          (oc_payment_method oc) (ticket_price e) = (Inr ord, s')"
    and "orders s' = (orders s)(next_order_pk s \<mapsto> ord)"
    and "quantity ord = oc_quantity oc" "event_id ord = oc_event_id oc"
    and "EventService_get s (oc_event_id oc) = Some e'"
    and "events s' = (events s)
           (oc_event_id oc \<mapsto> e'\<lparr> available_tickets := available_tickets e' - oc_quantity oc \<rparr>)"
    using OrderService_create_cases [OF assms, of "oc_event_id oc" "oc_quantity oc"] r
    by blast
  moreover have "create_order s u oc = (Inr ord, s')"
    using e ok v p c by (simp add: create_order_def)
  ultimately show ?thesis by blast
qed

text \<open>
  C2. When the reservation fails, \<^verbatim>\<open>OrderService.create\<close> raises the error about the
  tickets and leaves the orders and the events as they were: the order it had inserted is
  deleted again, and only the key counter has moved. When the reservation succeeds the store
  holds the new order and the event with its availability lowered by the quantity. So the
  store after the call holds both the order and the decrement or neither. The handler
  \<^verbatim>\<open>create_order\<close> likewise ends with an error and the store it started from, or with
  the order and the decrement. The key that the store hands out is one that no order has.
\<close>

theorem order_create_all_or_nothing:
  assumes "orders s (next_order_pk s) = None"
  shows "(\<not> fst (decrease_available_tickets s eid qty) \<longrightarrow>
            OrderService_create s uid eid qty pm price =
              (Inl (ValueError ''Failed to reserve tickets. Not enough available tickets.''),
               s\<lparr> next_order_pk := next_order_pk s + 1 \<rparr>)) \<and>
         (fst (decrease_available_tickets s eid qty) \<longrightarrow>
            (\<exists>ord e s'. OrderService_create s uid eid qty pm price = (Inr ord, s') \<and>
               order_pk ord = next_order_pk s \<and> event_id ord = eid \<and> quantity ord = qty \<and>
               status ord = PENDING \<and>
               orders s' = (orders s)(next_order_pk s \<mapsto> ord) \<and>
               EventService_get s eid = Some e \<and>
               events s' = (events s)
                 (eid \<mapsto> e\<lparr> available_tickets := available_tickets e - qty \<rparr>))) \<and>
         ((\<exists>err. create_order s u oc = (Inl err, s)) \<or>
          (\<exists>ord e s'. create_order s u oc = (Inr ord, s') \<and>
             orders s' = (orders s)(next_order_pk s \<mapsto> ord) \<and>
             quantity ord = oc_quantity oc \<and> event_id ord = oc_event_id oc \<and>
             EventService_get s (oc_event_id oc) = Some e \<and>
             events s' = (events s)
               (oc_event_id oc \<mapsto>
                  e\<lparr> available_tickets := available_tickets e - oc_quantity oc \<rparr>)))"
proof -
  note a = OrderService_create_cases [OF assms, of eid qty uid pm price]
  note b = create_order_cases [OF assms, of u oc]
  show ?thesis
    by (rule conjI [OF conjunct1 [OF a] conjI [OF conjunct2 [OF a] b]])
qed

theorem order_create_all_or_nothing_witness:
  "orders (example_db PAID None) (next_order_pk (example_db PAID None)) = None \<and>
   \<not> fst (decrease_available_tickets (example_db PAID None) 1 96) \<and>
   OrderService_create (example_db PAID None) 7 1 96 ''credit_card'' 20 =
     (Inl (ValueError ''Failed to reserve tickets. Not enough available tickets.''),
      (example_db PAID None)\<lparr> next_order_pk := 3 \<rparr>) \<and>
   fst (decrease_available_tickets (example_db PAID None) 1 95) \<and>
   map_option available_tickets
     (EventService_get (snd (OrderService_create (example_db PAID None) 7 1 95 ''credit_card'' 20)) 1)
     = Some 0 \<and>
   map_option quantity
     (OrderService_get (snd (OrderService_create (example_db PAID None) 7 1 95 ''credit_card'' 20)) 2)
     = Some 95"
proof -
  have fresh: "orders (example_db PAID None) (next_order_pk (example_db PAID None)) = None"
    by (simp add: example_db_def)
  have no: "\<not> fst (decrease_available_tickets (example_db PAID None) 1 96)"
    and yes: "fst (decrease_available_tickets (example_db PAID None) 1 95)"
    by (simp_all add: decrease_available_tickets_def example_get_event concert_def)
  have n: "next_order_pk (example_db PAID None) = 2"
    by (simp add: example_db_def)
  show ?thesis
    using order_create_all_or_nothing [OF fresh, of 1 96 7 "''credit_card''" 20]
          order_create_all_or_nothing [OF fresh, of 1 95 7 "''credit_card''" 20]
          fresh no yes n example_get_event [of PAID None]
    by (auto simp: EventService_get_def OrderService_get_def concert_def)
qed

subsection \<open>Orders that are canceled or refunded\<close>

lemma update_status_any:
  assumes "OrderService_get s oid = Some ord"
  shows "\<exists>ord'. update_status s oid st pid now =
                  (Inr ord', s\<lparr> orders := (orders s)(oid \<mapsto> ord') \<rparr>) \<and>
                status ord' = st"
  using assms
  by (auto simp: update_status_def OrderService_get_def commit_order_def Let_def
           split: option.splits if_splits)




subsection \<open>The inventory ledger\<close>

text \<open>
  C4. \<^verbatim>\<open>decrease_available_tickets\<close> returns false and leaves the store as it is when
  the event does not exist, is canceled, or has fewer tickets available than the quantity.
  In every other case it returns true and the store differs only in that the availability
  of the event is lower by the quantity.
\<close>

theorem decrease_available_tickets_contract:
  "(EventService_get s eid = None \<longrightarrow> decrease_available_tickets s eid qty = (False, s)) \<and>
   (\<forall>e. EventService_get s eid = Some e \<longrightarrow>
      (if is_canceled e \<or> available_tickets e < qty
       then decrease_available_tickets s eid qty = (False, s)
       else decrease_available_tickets s eid qty =
              (True, s\<lparr> events := (events s)
                          (eid \<mapsto> e\<lparr> available_tickets := available_tickets e - qty \<rparr>) \<rparr>)))"
  by (auto simp: decrease_available_tickets_def EventService_get_def commit_event_def
           split: option.splits if_splits)

theorem decrease_available_tickets_contract_witness:
  "EventService_get (example_db PENDING None) 1 = Some concert \<and>
   \<not> (is_canceled concert \<or> available_tickets concert < 3) \<and>
   decrease_available_tickets (example_db PENDING None) 1 3 =
     (True, (example_db PENDING None)\<lparr> events := [1 \<mapsto> concert\<lparr> available_tickets := 92 \<rparr>] \<rparr>) \<and>
   EventService_get (example_db PENDING None) 2 = None \<and>
   decrease_available_tickets (example_db PENDING None) 2 3 = (False, example_db PENDING None)"
  using decrease_available_tickets_contract [of "example_db PENDING None" 1 3]
        decrease_available_tickets_contract [of "example_db PENDING None" 2 3]
        example_get_event [of PENDING None]
  by (simp add: concert_def example_db_def EventService_get_def)

text \<open>
  C5. For an event that exists, \<^verbatim>\<open>increase_available_tickets\<close> returns true and sets
  the availability to the smaller of availability plus quantity and the capacity. It
  returns false exactly when the event does not exist, and then the store is as it was.
\<close>

theorem increase_available_tickets_contract:
  "(\<forall>e. EventService_get s eid = Some e \<longrightarrow>
      increase_available_tickets s eid qty =
        (True, s\<lparr> events := (events s)
                    (eid \<mapsto> e\<lparr> available_tickets :=
                                 min (available_tickets e + qty) (total_capacity e) \<rparr>) \<rparr>)) \<and>
   (fst (increase_available_tickets s eid qty) = False \<longleftrightarrow> EventService_get s eid = None) \<and>
   (EventService_get s eid = None \<longrightarrow> snd (increase_available_tickets s eid qty) = s)"
  by (auto simp: increase_available_tickets_def EventService_get_def commit_event_def Let_def
           split: option.splits if_splits)

theorem increase_available_tickets_contract_witness:
  "EventService_get (example_db PENDING None) 1 = Some concert \<and>
   increase_available_tickets (example_db PENDING None) 1 8 =
     (True, (example_db PENDING None)\<lparr> events := [1 \<mapsto> concert\<lparr> available_tickets := 100 \<rparr>] \<rparr>) \<and>
   EventService_get (example_db PENDING None) 2 = None \<and>
   increase_available_tickets (example_db PENDING None) 2 8 = (False, example_db PENDING None)"
  using increase_available_tickets_contract [of "example_db PENDING None" 1 8]
        increase_available_tickets_contract [of "example_db PENDING None" 2 8]
        example_get_event [of PENDING None]
  by (simp add: concert_def example_db_def EventService_get_def prod_eq_iff)

text \<open>
  C6. An update that carries a new capacity fails when the tickets sold, capacity minus
  availability, exceed the new capacity: \<^verbatim>\<open>EventService.update\<close> raises and the store is as
  it was. In every other case the update succeeds, the capacity is the new one and the
  availability has moved by the difference between the new capacity and the old one.
\<close>

theorem resize_contract:
  assumes "eu_total_capacity eu = Some n"
  shows "(n < total_capacity e - available_tickets e \<longrightarrow>
            EventService_update s e eu =
              (Inl (ValueError (''Cannot reduce capacity below tickets already sold (''
                     @ str_int (total_capacity e - available_tickets e) @ '')'')), s)) \<and>
         (\<not> n < total_capacity e - available_tickets e \<longrightarrow>
            (\<exists>e'. EventService_update s e eu =
                    (Inr e', s\<lparr> events := (events s)(event_pk e \<mapsto> e') \<rparr>) \<and>
                  available_tickets e' = available_tickets e + (n - total_capacity e) \<and>
                  total_capacity e' = n \<and> event_pk e' = event_pk e))"
  using assms
  by (auto simp: EventService_update_def Let_def set_fields_def commit_event_def
           split: option.splits)

theorem resize_contract_witness:
  "eu_total_capacity (resize_to 4) = Some 4 \<and>
   4 < total_capacity concert - available_tickets concert \<and>
   EventService_update (example_db PENDING None) concert (resize_to 4) =
     (Inl (ValueError ''Cannot reduce capacity below tickets already sold (5)''),
      example_db PENDING None) \<and>
   eu_total_capacity (resize_to 50) = Some 50 \<and>
   \<not> 50 < total_capacity concert - available_tickets concert \<and>
   map_option available_tickets
     (EventService_get (snd (EventService_update (example_db PENDING None) concert (resize_to 50))) 1)
     = Some 45"
proof -
  have a: "eu_total_capacity (resize_to 4) = Some 4" and b: "eu_total_capacity (resize_to 50) = Some 50"
    by (simp_all add: resize_to_def)
  have sold: "total_capacity concert - available_tickets concert = 5"
    by (simp add: concert_def)
  have msg: "str_int 5 = ''5''"
    by (simp add: str_int_def digit_char_def)
  show ?thesis
    using resize_contract [OF a, of concert "example_db PENDING None"]
          resize_contract [OF b, of concert "example_db PENDING None"] a b sold msg
    by (auto simp: EventService_get_def concert_def)
qed

subsection \<open>Payment\<close>

text \<open>
  C7. \<^verbatim>\<open>process_payment\<close> on an order that is \<^verbatim>\<open>PAID\<close> leaves the store as it was, so
  \<^verbatim>\<open>paid_at\<close>, \<^verbatim>\<open>payment_id\<close> and the availability of the event keep their values. The
  owner of the order and an admin get the response with the status, the payment id of the
  order and the message that the order is already paid.
\<close>

theorem already_paid_is_idempotent:
  assumes "OrderService_get s oid = Some ord"
    and "status ord = PAID"
  shows "snd (process_payment s u oid payment_data token now) = s \<and>
         (user_id ord = user_pk u \<or> is_admin u \<longrightarrow>
            process_payment s u oid payment_data token now =
              (Inr \<lparr> resp_order_id = order_pk ord, resp_status = PAID,
                     resp_payment_id = payment_id ord,
                     message = ''Order is already paid'' \<rparr>, s))"
  using assms by (auto simp: process_payment_def)

theorem already_paid_is_idempotent_witness:
  "OrderService_get (example_db PAID (Some ''payment_0a1b2c3d4e'')) 1
     = Some (order1 PAID (Some ''payment_0a1b2c3d4e'')) \<and>
   status (order1 PAID (Some ''payment_0a1b2c3d4e'')) = PAID \<and>
   (user_id (order1 PAID (Some ''payment_0a1b2c3d4e'')) = user_pk alice \<or> is_admin alice) \<and>
   process_payment (example_db PAID (Some ''payment_0a1b2c3d4e'')) alice 1
       expired_card_payment ''ffffffffff'' 1000 =
     (Inr \<lparr> resp_order_id = 1, resp_status = PAID,
            resp_payment_id = Some ''payment_0a1b2c3d4e'', message = ''Order is already paid'' \<rparr>,
      example_db PAID (Some ''payment_0a1b2c3d4e''))"
proof -
  let ?p = "Some ''payment_0a1b2c3d4e''"
  have a: "OrderService_get (example_db PAID ?p) 1 = Some (order1 PAID ?p)"
    by (rule example_get_order)
  have b: "status (order1 PAID ?p) = PAID"
    by (simp add: order1_def)
  have c: "user_id (order1 PAID ?p) = user_pk alice \<or> is_admin alice"
    by (simp add: order1_def alice_def)
  show ?thesis
    using already_paid_is_idempotent
            [OF a b, of alice expired_card_payment "''ffffffffff''" 1000] a b c
    by (simp add: order1_def alice_def)
qed

lemma validate_credit_card_first_rules:
  assumes "validate_credit_card_first cur_year cur_month pd = Valid"
  shows "\<exists>num mo yr cvc.
           card_number pd = Some num \<and> card_exp_month pd = Some mo \<and>
           card_exp_year pd = Some yr \<and> card_cvc pd = Some cvc \<and>
           isdigit (strip_separators num) \<and>
           13 \<le> length (strip_separators num) \<and> length (strip_separators num) \<le> 19 \<and>
           1 \<le> mo \<and> mo \<le> 12 \<and>
           \<not> (yr < cur_year \<or> (yr = cur_year \<and> mo < cur_month)) \<and>
           isdigit cvc \<and> 3 \<le> length cvc \<and> length cvc \<le> 4"
  using assms
  by (cases "card_number pd"; cases "card_exp_month pd"; cases "card_exp_year pd";
      cases "card_cvc pd")
     (simp_all add: validate_credit_card_first_def truthy_str_def truthy_int_def str_text_def
        Let_def split: if_splits)

lemma validate_credit_card_rules:
  assumes "validate_credit_card pd"
  shows "\<exists>num mo yr cvc.
           card_number pd = Some num \<and> card_exp_month pd = Some mo \<and>
           card_exp_year pd = Some yr \<and> card_cvc pd = Some cvc \<and>
           isdigit (strip_separators num) \<and>
           13 \<le> length (strip_separators num) \<and> length (strip_separators num) \<le> 19 \<and>
           1 \<le> mo \<and> mo \<le> 12 \<and> 2000 \<le> yr \<and> yr \<le> 2100 \<and>
           isdigit cvc \<and> 3 \<le> length cvc \<and> length cvc \<le> 4"
  using assms
  by (cases "card_number pd"; cases "card_exp_month pd"; cases "card_exp_year pd";
      cases "card_cvc pd")
     (simp_all add: validate_credit_card_def truthy_str_def truthy_int_def str_text_def
        Let_def split: if_splits)

lemma expired_card_valid: "validate_credit_card expired_card"
  by (simp add: validate_credit_card_def expired_card_def truthy_str_def truthy_int_def
        str_opt_def str_text_def text_of_def strip_separators_def isdigit_def Let_def)

text \<open>
  A cvc of the superscript digits two, three and one, which \<^verbatim>\<open>str.isdigit()\<close> accepts,
  passes the validation as well.
\<close>

lemma superscript_cvc_valid:
  "validate_credit_card (expired_card\<lparr> card_cvc := Some [Digit 178, Digit 179, Digit 185] \<rparr>)"
  by (simp add: validate_credit_card_def expired_card_def truthy_str_def truthy_int_def
        str_text_def text_of_def strip_separators_def isdigit_def Let_def)

lemma expired_card_pays_order:
  "process_payment (example_db PENDING None) alice 1 expired_card_payment ''0a1b2c3d4e'' 1000 =
     (Inr \<lparr> resp_order_id = 1, resp_status = PAID,
            resp_payment_id = Some ''payment_0a1b2c3d4e'', message = ''Payment successful'' \<rparr>,
      (example_db PENDING None)
        \<lparr> orders := [1 \<mapsto> (order1 PAID (Some ''payment_0a1b2c3d4e''))\<lparr> paid_at := Some 1000 \<rparr>] \<rparr>)"
  by (simp add: process_payment_def PaymentService_process_payment_def validate_credit_card_def
        update_status_def OrderService_get_def commit_order_def truthy_str_def truthy_int_def
        str_opt_def str_text_def text_of_def strip_separators_def isdigit_def Let_def
        expired_card_payment_def example_db_def order1_def alice_def)

text \<open>
  C9. The card of the example ran out in January 2020. The validation that
  \<^verbatim>\<open>PaymentService\<close> runs accepts it and the payment succeeds; the validation of the
  first class definition, with the date at November 2026, turns the same card down as
  expired.
\<close>

theorem expired_card_is_charged:
  "validate_credit_card expired_card \<and>
   PaymentService_process_payment 100 ''credit_card'' expired_card ''0a1b2c3d4e'' =
     \<lparr> success = True, pr_payment_id = Some ''payment_0a1b2c3d4e'', pr_error = None \<rparr> \<and>
   validate_credit_card_first 2026 11 expired_card = Invalid ''Card has expired''"
  by (simp add: PaymentService_process_payment_def expired_card_valid)
     (simp add: validate_credit_card_first_def expired_card_def truthy_str_def truthy_int_def
        str_opt_def str_text_def text_of_def strip_separators_def isdigit_def Let_def)

theorem expired_card_is_charged_witness:
  "success (PaymentService_process_payment 100 ''credit_card'' expired_card ''0a1b2c3d4e'') \<and>
   validate_credit_card_first 2026 11 expired_card \<noteq> Valid"
  using expired_card_is_charged by simp

subsection \<open>The refund reference\<close>

text \<open>
  C10, as the code has it. \<^verbatim>\<open>OrderService.cancel_order\<close> with a refund id that is not
  empty, on an order that exists, stores as payment id the old payment id, then
  \<^verbatim>\<open>:refund:\<close>, then the refund id. An old payment id of \<^verbatim>\<open>None\<close> is printed as the word
  \<^verbatim>\<open>None\<close>, so the stored value starts with \<^verbatim>\<open>None:refund:\<close>.
\<close>

theorem cancel_order_refund_suffix:
  assumes "OrderService_get s oid = Some ord" and "rid \<noteq> []"
  shows "\<exists>ord'. OrderService_cancel_order s oid (Some rid) =
                  (Inr ord', s\<lparr> orders := (orders s)(oid \<mapsto> ord') \<rparr>) \<and>
                status ord' = CANCELED \<and>
                payment_id ord' = Some (str_opt (payment_id ord) @ '':refund:'' @ rid) \<and>
                (payment_id ord = None \<longrightarrow>
                   payment_id ord' = Some (''None:refund:'' @ rid))"
  using assms
  by (auto simp: OrderService_cancel_order_def OrderService_get_def commit_order_def
        truthy_str_def str_opt_def Let_def split: option.splits if_splits)

theorem cancel_order_refund_suffix_witness:
  "OrderService_get (example_db PAID None) 1 = Some (order1 PAID None) \<and>
   ''refund_123'' \<noteq> [] \<and>
   payment_id (order1 PAID None) = None \<and>
   OrderService_cancel_order (example_db PAID None) 1 (Some ''refund_123'') =
     (Inr (order1 CANCELED (Some ''None:refund:refund_123'')),
      example_db CANCELED (Some ''None:refund:refund_123''))"
proof -
  have a: "OrderService_get (example_db PAID None) 1 = Some (order1 PAID None)"
    by (rule example_get_order)
  have b: "''refund_123'' \<noteq> []"
    by simp
  have c: "payment_id (order1 PAID None) = None"
    by (simp add: order1_def)
  obtain ord' where r: "OrderService_cancel_order (example_db PAID None) 1 (Some ''refund_123'') =
       (Inr ord', (example_db PAID None)\<lparr> orders := (orders (example_db PAID None))(1 \<mapsto> ord') \<rparr>)"
    and "status ord' = CANCELED"
    and "payment_id ord' = Some (''None:refund:'' @ ''refund_123'')"
    using cancel_order_refund_suffix [OF a b] c by blast
  moreover have "fst (OrderService_cancel_order (example_db PAID None) 1 (Some ''refund_123'')) =
      Inr ((order1 PAID None)\<lparr> status := CANCELED,
             payment_id := Some ''None:refund:refund_123'' \<rparr>)"
    by (simp add: OrderService_cancel_order_def a truthy_str_def str_opt_def c Let_def)
  ultimately have "ord' = order1 CANCELED (Some ''None:refund:refund_123'')"
    by (simp add: order1_def)
  then show ?thesis using r a b c
    by (simp add: example_db_def)
qed

text \<open>
  C10, as it is written, fails at the empty string, which is a refund id that is not
  \<^verbatim>\<open>None\<close>: the test \<^verbatim>\<open>if refund_id:\<close> is false for it and the payment id stays as it
  was.
\<close>

theorem empty_refund_id_counterexample:
  "OrderService_get (example_db PAID (Some ''payment_0a1b2c3d4e'')) 1 =
     Some (order1 PAID (Some ''payment_0a1b2c3d4e'')) \<and>
   OrderService_cancel_order (example_db PAID (Some ''payment_0a1b2c3d4e'')) 1 (Some '''') =
     (Inr (order1 CANCELED (Some ''payment_0a1b2c3d4e'')),
      example_db CANCELED (Some ''payment_0a1b2c3d4e'')) \<and>
   payment_id (order1 CANCELED (Some ''payment_0a1b2c3d4e'')) \<noteq>
     Some (str_opt (payment_id (order1 PAID (Some ''payment_0a1b2c3d4e''))) @ '':refund:'' @ '''')"
  by (simp add: OrderService_cancel_order_def OrderService_get_def truthy_str_def str_opt_def
        commit_order_def Let_def example_db_def order1_def)

text \<open>
  An order that is \<^verbatim>\<open>PAID\<close> and has no payment id comes from \<^verbatim>\<open>update_status\<close> when it
  is called without one; canceling it through the handler stores \<^verbatim>\<open>None:refund:refund_123\<close>.
\<close>

lemma paid_without_payment_id_reachable:
  "update_status (example_db PENDING None) 1 PAID None 1000 =
     (Inr ((order1 PAID None)\<lparr> paid_at := Some 1000 \<rparr>),
      (example_db PENDING None)\<lparr> orders := [1 \<mapsto> (order1 PAID None)\<lparr> paid_at := Some 1000 \<rparr>] \<rparr>) \<and>
   map_option payment_id
     (OrderService_get
        (snd (cancel_order (snd (update_status (example_db PENDING None) 1 PAID None 1000))
                alice 1)) 1)
     = Some (Some ''None:refund:refund_123'')"
  by (simp add: update_status_def truthy_str_def commit_order_def cancel_order_def
        OrderService_cancel_order_def increase_available_tickets_def str_opt_def
        OrderService_get_def EventService_get_def commit_event_def Let_def
        example_db_def order1_def alice_def concert_def)


end
